theory Spec2Isabelle
  imports Complex_Main
begin

section \<open>Python values, exceptions and the raw CSV row\<close>

text \<open>
  The exceptions the modelled code paths of \<^verbatim>\<open>unclaimed_property_app.py\<close> can raise.
  \<open>HTTPException status detail\<close> is FastAPI's; the others are Python's or the standard
  library's (\<open>BadZipFile\<close> from \<^verbatim>\<open>zipfile\<close>, \<open>OperationalError\<close> from \<^verbatim>\<open>sqlite3\<close>;
  \<open>RuntimeError\<close> and \<open>NotImplementedError\<close> are what \<^verbatim>\<open>zipfile\<close> raises for a member it
  cannot read).
  The module defines no exception class of its own.
\<close>

datatype error =
    TypeError
  | ValueError
  | IndexError
  | BadZipFile
  | RuntimeError
  | NotImplementedError
  | OperationalError
  | HTTPException int string

text \<open>
  A row as \<^verbatim>\<open>csv.DictReader\<close> yields it: a dict from header names to cell values, in
  header order. A cell is a \<^verbatim>\<open>str\<close>, or \<^verbatim>\<open>None\<close> where the line is shorter than the
  header (\<^verbatim>\<open>restval\<close>). Strings are lists of 8-bit characters: the model covers text
  in that range, and \<open>length\<close> is Python's \<^verbatim>\<open>len\<close> there.
\<close>

type_synonym raw_row = "(string \<times> string option) list"

text \<open>\<^verbatim>\<open>row.get(key)\<close>: the cell, \<^verbatim>\<open>None\<close> when the key is missing.\<close>

definition row_get :: "raw_row \<Rightarrow> string \<Rightarrow> string option" where
  "row_get row key = (case map_of row key of None \<Rightarrow> None | Some v \<Rightarrow> v)"

text \<open>\<^verbatim>\<open>row.get(key, '')\<close>: the default only replaces a missing key, not a \<^verbatim>\<open>None\<close> cell.\<close>

definition row_get_str :: "raw_row \<Rightarrow> string \<Rightarrow> string option" where
  "row_get_str row key = (case map_of row key of None \<Rightarrow> Some [] | Some v \<Rightarrow> v)"

text \<open>\<^verbatim>\<open>a or b\<close> on cells: \<^verbatim>\<open>None\<close> and the empty string are falsy.\<close>

definition py_or :: "string option \<Rightarrow> string option \<Rightarrow> string option" where
  "py_or a b = (case a of None \<Rightarrow> b | Some s \<Rightarrow> if s = [] then b else Some s)"

text \<open>A cell inside an f-string: \<^verbatim>\<open>None\<close> is formatted as the text \<^verbatim>\<open>None\<close>.\<close>

definition fmt :: "string option \<Rightarrow> string" where
  "fmt v = (case v of None \<Rightarrow> ''None'' | Some s \<Rightarrow> s)"

section \<open>Python's \<^verbatim>\<open>float(str)\<close>\<close>

text \<open>
  The value of a float: a finite number, an infinity (\<open>Inf True\<close> is the negative one) or
  a NaN. A finite value is kept as the exact decimal the literal denotes; the rounding to
  a binary64 (and the overflow of a huge exponent) is not modelled.
\<close>

datatype pyfloat = Finite rat | Inf bool | NaN

definition is_digit :: "char \<Rightarrow> bool" where
  "is_digit c = (c \<in> set ''0123456789'')"

definition digit_val :: "char \<Rightarrow> nat" where
  "digit_val c = of_char c - 48"

text \<open>
  What \<^verbatim>\<open>float\<close> strips from both ends: the ASCII whitespace \<^verbatim>\<open>" \t\n\v\f\r"\<close>, and
  the two other whitespace characters below 256, \<^verbatim>\<open>U+0085\<close> and \<^verbatim>\<open>U+00A0\<close>.
\<close>

definition is_space :: "char \<Rightarrow> bool" where
  "is_space c = (c \<in> set [CHR 0x09, CHR 0x0A, CHR 0x0B, CHR 0x0C, CHR 0x0D, CHR 0x20,
                            CHR 0x85, CHR 0xA0])"

definition strip :: "string \<Rightarrow> string" where
  "strip s = rev (dropWhile is_space (rev (dropWhile is_space s)))"

definition lower_char :: "char \<Rightarrow> char" where
  "lower_char c =
     (if (65::nat) \<le> of_char c \<and> of_char c \<le> (90::nat) then char_of (of_char c + (32::nat)) else c)"

text \<open>
  The grammar of the Python reference, \<^verbatim>\<open>digitpart ::= digit (["_"] digit)*\<close>:
  \<open>digits_rest\<close> reads the longest such run and returns its digits (underscores
  dropped) and the unread rest; an underscore is only read between two digits.
\<close>

fun digits_rest :: "string \<Rightarrow> string \<times> string" where
  "digits_rest [] = ([], [])"
| "digits_rest [c] = (if is_digit c then ([c], []) else ([], [c]))"
| "digits_rest (c # d # s) =
     (if is_digit c then (case digits_rest (d # s) of (ds, r) \<Rightarrow> (c # ds, r))
      else if c = CHR ''_'' \<and> is_digit d then (case digits_rest s of (ds, r) \<Rightarrow> (d # ds, r))
      else ([], c # d # s))"

definition digitpart :: "string \<Rightarrow> string \<times> string" where
  "digitpart s = (case s of [] \<Rightarrow> ([], []) | c # _ \<Rightarrow> if is_digit c then digits_rest s else ([], s))"

definition nat_of_digits :: "string \<Rightarrow> nat" where
  "nat_of_digits ds = foldl (\<lambda>n c. 10 * n + digit_val c) 0 ds"

definition scale10 :: "nat \<Rightarrow> int \<Rightarrow> rat" where
  "scale10 m e = (if 0 \<le> e then of_nat m * 10 ^ nat e else of_nat m / 10 ^ nat (- e))"

text \<open>
  \<^verbatim>\<open>exponent ::= ("e" | "E") [sign] digitpart\<close>, which must reach the end of the text:
  \<open>None\<close> is a malformed exponent, \<open>Some e\<close> its value (\<open>0\<close> when there is none).
\<close>

definition exponent :: "string \<Rightarrow> int option" where
  "exponent s =
     (case s of
        [] \<Rightarrow> Some 0
      | c # t \<Rightarrow>
          if c = CHR ''e'' \<or> c = CHR ''E'' then
            (let neg = (case t of [] \<Rightarrow> False | g # _ \<Rightarrow> g = CHR ''-'');
                 t' = (case t of [] \<Rightarrow> [] | g # u \<Rightarrow> if g = CHR ''+'' \<or> g = CHR ''-'' then u else t)
             in case digitpart t' of
                  (ds, r) \<Rightarrow>
                    if ds = [] \<or> r \<noteq> [] then None
                    else Some (if neg then - int (nat_of_digits ds) else int (nat_of_digits ds)))
          else None)"

text \<open>
  \<^verbatim>\<open>floatnumber ::= number [exponent]\<close> with
  \<^verbatim>\<open>number ::= [digitpart] "." digitpart | digitpart ["."]\<close>.
\<close>

definition floatnumber :: "string \<Rightarrow> rat option" where
  "floatnumber s =
     (case digitpart s of
        (ip, r1) \<Rightarrow>
          (case (case r1 of [] \<Rightarrow> ([], [])
                 | c # t \<Rightarrow> if c = CHR ''.'' then digitpart t else ([], r1)) of
             (fp, r2) \<Rightarrow>
               if ip = [] \<and> fp = [] then None
               else (case exponent r2 of
                       None \<Rightarrow> None
                     | Some e \<Rightarrow> Some (scale10 (nat_of_digits (ip @ fp)) (e - int (length fp))))))"

text \<open>\<^verbatim>\<open>absfloatvalue ::= floatnumber | infinity | nan\<close>, the words in any letter case.\<close>

definition absfloatvalue :: "string \<Rightarrow> pyfloat option" where
  "absfloatvalue s =
     (if map lower_char s = ''inf'' \<or> map lower_char s = ''infinity'' then Some (Inf False)
      else if map lower_char s = ''nan'' then Some NaN
      else map_option Finite (floatnumber s))"

definition negate :: "pyfloat \<Rightarrow> pyfloat" where
  "negate x = (case x of Finite q \<Rightarrow> Finite (- q) | Inf b \<Rightarrow> Inf (\<not> b) | NaN \<Rightarrow> NaN)"

text \<open>
  \<^verbatim>\<open>float(s)\<close> for a string: surrounding whitespace is stripped, then
  \<^verbatim>\<open>floatvalue ::= [sign] absfloatvalue\<close>; anything else raises \<^verbatim>\<open>ValueError\<close>.
\<close>

definition float_of_str :: "string \<Rightarrow> error + pyfloat" where
  "float_of_str s =
     (let t = strip s;
          neg = (case t of [] \<Rightarrow> False | c # _ \<Rightarrow> c = CHR ''-'');
          u = (case t of [] \<Rightarrow> [] | c # r \<Rightarrow> if c = CHR ''+'' \<or> c = CHR ''-'' then r else t)
      in case absfloatvalue u of
           None \<Rightarrow> Inl ValueError
         | Some x \<Rightarrow> Inr (if neg then negate x else x))"

section \<open>The row tuple of \<^verbatim>\<open>build_database\<close>\<close>

text \<open>
  One row of the \<^verbatim>\<open>properties\<close> table, column by column as \<^verbatim>\<open>CREATE TABLE\<close> lists
  them; the tuple built for a source row has the same thirteen places. A \<^verbatim>\<open>TEXT\<close>
  column holds a string or \<^verbatim>\<open>NULL\<close> (\<open>None\<close>), the \<^verbatim>\<open>REAL\<close> column a float or
  \<^verbatim>\<open>NULL\<close>; in a tuple the amount is always a float. \<open>raw_json\<close> is \<^verbatim>\<open>str(row)\<close>, the
  printed form of the source row; it is kept as the row it prints.
\<close>

record property_row =
  property_id :: "string option"
  owner_name :: "string option"
  owner_address :: "string option"
  owner_city :: "string option"
  owner_state :: "string option"
  owner_zip :: "string option"
  amount_reported :: "pyfloat option"
  cash_reported :: "string option"
  property_type :: "string option"
  holder_name :: "string option"
  holder_address :: "string option"
  reported_date :: "string option"
  raw_json :: raw_row

text \<open>
  \<^verbatim>\<open>float(row.get("AMOUNT_REPORTED", 0) or 0)\<close>: a missing key, a \<^verbatim>\<open>None\<close> cell and
  an empty cell all give the integer \<^verbatim>\<open>0\<close> and so \<^verbatim>\<open>0.0\<close>; any other cell is
  parsed by \<^verbatim>\<open>float\<close>, which may raise.
\<close>

definition amount_of :: "raw_row \<Rightarrow> error + pyfloat" where
  "amount_of row =
     (case map_of row ''AMOUNT_REPORTED'' of
        None \<Rightarrow> Inr (Finite 0)
      | Some None \<Rightarrow> Inr (Finite 0)
      | Some (Some s) \<Rightarrow> if s = [] then Inr (Finite 0) else float_of_str s)"

text \<open>
  The tuple appended to \<^verbatim>\<open>rows\<close> for one source row (lines 121 to 137). Only the
  \<^verbatim>\<open>float\<close> call can raise; nothing filters a row out.
\<close>

definition normalize_row :: "raw_row \<Rightarrow> error + property_row" where
  "normalize_row row =
     (case amount_of row of
        Inl e \<Rightarrow> Inl e
      | Inr amount \<Rightarrow>
          Inr \<lparr> property_id = py_or (row_get row ''PROPERTY_ID'') (row_get row ''Property ID''),
                owner_name = Some (fmt (row_get_str row ''OWNER_NAME'') @ '' '' @
                                   fmt (row_get_str row ''OWNER_FIRST_NAME'')),
                owner_address = row_get_str row ''OWNER_ADDRESS'',
                owner_city = row_get_str row ''OWNER_CITY'',
                owner_state = row_get_str row ''OWNER_STATE'',
                owner_zip = row_get_str row ''OWNER_ZIP'',
                amount_reported = Some amount,
                cash_reported = row_get_str row ''CASH_REPORTED'',
                property_type = row_get_str row ''PROPERTY_TYPE'',
                holder_name = row_get_str row ''HOLDER_NAME'',
                holder_address = row_get_str row ''HOLDER_ADDRESS'',
                reported_date = row_get_str row ''REPORTED_DATE'',
                raw_json = row \<rparr>)"

section \<open>The database\<close>

text \<open>
  The SQLite file behind \<^verbatim>\<open>DB_PATH\<close>, as its committed contents. \<open>properties\<close> is the
  record store: every row with the \<^verbatim>\<open>rowid\<close> SQLite gave it, in insertion order.
  \<open>properties_fts\<close> is the FTS5 index: the entries inserted into it, each with its
  \<^verbatim>\<open>rowid\<close> and the four indexed columns (\<^verbatim>\<open>owner_name\<close>, \<^verbatim>\<open>owner_address\<close>,
  \<^verbatim>\<open>owner_city\<close>, \<^verbatim>\<open>holder_name\<close>). Both tables exist: \<^verbatim>\<open>CREATE ... IF NOT EXISTS\<close>
  makes them empty in a new file and leaves them alone otherwise.
\<close>

type_synonym fts_entry = "int \<times> string option \<times> string option \<times> string option \<times> string option"

record db =
  properties :: "(int \<times> property_row) list"
  properties_fts :: "fts_entry list"

definition empty_db :: db where
  "empty_db = \<lparr> properties = [], properties_fts = [] \<rparr>"

text \<open>
  The \<^verbatim>\<open>rowid\<close> of a new row: one more than the largest in use, \<open>1\<close> in an empty table.
\<close>

definition next_rowid :: "(int \<times> property_row) list \<Rightarrow> int" where
  "next_rowid tbl = fold max (map fst tbl) 0 + 1"

text \<open>
  The uniqueness constraint of \<^verbatim>\<open>property_id TEXT PRIMARY KEY\<close>. The column is not
  declared \<^verbatim>\<open>NOT NULL\<close> and the table is an ordinary rowid table, so SQLite accepts
  \<^verbatim>\<open>NULL\<close> in it, and a \<^verbatim>\<open>NULL\<close> never conflicts with anything.
\<close>

definition conflicts :: "property_row \<Rightarrow> (int \<times> property_row) list \<Rightarrow> bool" where
  "conflicts t tbl =
     (property_id t \<noteq> None \<and> property_id t \<in> set (map (\<lambda>(rid, r). property_id r) tbl))"

text \<open>
  The values of a tuple as \<^verbatim>\<open>sqlite3\<close> binds them to the \<^verbatim>\<open>?\<close> of the statement: a
  string and \<^verbatim>\<open>None\<close> as they are, a float as it is but for a NaN, which SQLite
  stores as \<^verbatim>\<open>NULL\<close>.
\<close>

definition bind_row :: "property_row \<Rightarrow> property_row" where
  "bind_row t = (if amount_reported t = Some NaN then t\<lparr> amount_reported := None \<rparr> else t)"

text \<open>\<^verbatim>\<open>INSERT OR IGNORE INTO properties VALUES (...)\<close> for one tuple.\<close>

definition insert_or_ignore :: "property_row \<Rightarrow> (int \<times> property_row) list \<Rightarrow> (int \<times> property_row) list" where
  "insert_or_ignore t tbl =
     (if conflicts t tbl then tbl else tbl @ [(next_rowid tbl, bind_row t)])"

text \<open>
  \<^verbatim>\<open>cur.executemany("INSERT OR IGNORE ...", rows)\<close> followed by \<^verbatim>\<open>conn.commit()\<close>: the
  tuples are inserted one after the other, then the transaction is committed.
\<close>

definition insert_rows :: "property_row list \<Rightarrow> db \<Rightarrow> db" where
  "insert_rows rows d = d\<lparr> properties := fold insert_or_ignore rows (properties d) \<rparr>"

text \<open>
  The index extension, \<^verbatim>\<open>cur.executemany("INSERT INTO properties_fts(...) SELECT ...")\<close>:
  \<^verbatim>\<open>Cursor.executemany\<close> takes the statement and a sequence of parameters, and the call
  passes the statement alone, so Python raises \<^verbatim>\<open>TypeError\<close> when it binds the
  arguments and the statement is never sent to SQLite.
\<close>

definition extend_index :: "db \<Rightarrow> error + db" where
  "extend_index d = Inl TypeError"

text \<open>
  One flush of \<^verbatim>\<open>rows\<close> (lines 139 to 141 and 144 to 146): insert and commit, then
  extend the index. An exception leaves the database as committed so far.
\<close>

definition flush :: "property_row list \<Rightarrow> db \<Rightarrow> error option \<times> db" where
  "flush rows d =
     (let d' = insert_rows rows d
      in case extend_index d' of Inl e \<Rightarrow> (Some e, d') | Inr d'' \<Rightarrow> (None, d''))"

section \<open>\<^verbatim>\<open>build_database\<close> and \<^verbatim>\<open>sync\<close>\<close>

text \<open>
  The loop over one buffer, \<^verbatim>\<open>for i, row in enumerate(reader, 1)\<close>, with the rows still
  to read, the counter \<open>i\<close> of the next row, the pending \<^verbatim>\<open>rows\<close> and the database;
  after the last row, \<^verbatim>\<open>if rows:\<close> flushes what is pending. The result is the exception
  that ended the run, if any, and the database as it stands then.
\<close>

fun stream_rows :: "raw_row list \<Rightarrow> nat \<Rightarrow> property_row list \<Rightarrow> db \<Rightarrow> error option \<times> db" where
  "stream_rows [] i rows d = (if rows \<noteq> [] then flush rows d else (None, d))"
| "stream_rows (row # rest) i rows d =
     (case normalize_row row of
        Inl e \<Rightarrow> (Some e, d)
      | Inr t \<Rightarrow>
          if i mod 10000 = 0 then
            (case flush (rows @ [t]) d of
               (Some e, d') \<Rightarrow> (Some e, d')
             | (None, d') \<Rightarrow> stream_rows rest (Suc i) [] d')
          else stream_rows rest (Suc i) (rows @ [t]) d)"

text \<open>\<^verbatim>\<open>for buf in csv_buffers\<close>: an exception in one buffer ends the run.\<close>

fun build_buffers :: "raw_row list list \<Rightarrow> db \<Rightarrow> error option \<times> db" where
  "build_buffers [] d = (None, d)"
| "build_buffers (buf # bufs) d =
     (case stream_rows buf 1 [] d of
        (Some e, d') \<Rightarrow> (Some e, d')
      | (None, d') \<Rightarrow> build_buffers bufs d')"

text \<open>
  \<^verbatim>\<open>build_database(csv_buffers)\<close>. A buffer is given as the rows \<^verbatim>\<open>csv.DictReader\<close>
  reads from it. The function returns nothing: its effect is the database, and the
  exception when one is raised.
\<close>

definition build_database :: "raw_row list list \<Rightarrow> db \<Rightarrow> error option \<times> db" where
  "build_database csv_buffers d = build_buffers csv_buffers d"

text \<open>
  A downloaded archive as \<^verbatim>\<open>zipfile.ZipFile\<close> opens it: not a ZIP file, or the members
  in \<^verbatim>\<open>namelist()\<close> order, each with what \<^verbatim>\<open>zf.open(name)\<close> and \<^verbatim>\<open>f.read()\<close> give
  for it: its content as decoded text, or the exception they raise (\<^verbatim>\<open>RuntimeError\<close>
  for an encrypted member, \<^verbatim>\<open>BadZipFile\<close> for a bad checksum, \<^verbatim>\<open>NotImplementedError\<close>
  for a compression method that is not supported). Decoding with
  \<^verbatim>\<open>errors="replace"\<close> does not raise.
\<close>

datatype zip_bytes = NotAZip | Zip "(string \<times> (error + string)) list"

definition extract_csv_from_zip :: "zip_bytes \<Rightarrow> error + string" where
  "extract_csv_from_zip zb =
     (case zb of
        NotAZip \<Rightarrow> Inl BadZipFile
      | Zip members \<Rightarrow>
          (case members of
             [] \<Rightarrow> Inl IndexError
           | (name, Inl e) # _ \<Rightarrow> Inl e
           | (name, Inr buf) # _ \<Rightarrow> Inr buf))"

text \<open>
  \<^verbatim>\<open>sync()\<close>, given what \<^verbatim>\<open>download_zip(ALL_FILE)\<close> returned or raised and the CSV
  reader (\<^verbatim>\<open>csv.DictReader\<close>, from a buffer's text to its rows).
\<close>

definition sync :: "(string \<Rightarrow> raw_row list) \<Rightarrow> error + zip_bytes \<Rightarrow> db \<Rightarrow> error option \<times> db" where
  "sync reader resp d =
     (case resp of
        Inl e \<Rightarrow> (Some e, d)
      | Inr zip_bytes \<Rightarrow>
          (case extract_csv_from_zip zip_bytes of
             Inl e \<Rightarrow> (Some e, d)
           | Inr buf \<Rightarrow> build_database [reader buf] d))"

section \<open>The API handlers\<close>

text \<open>
  A handler opens a connection, runs one \<^verbatim>\<open>SELECT\<close> and closes the connection; it
  returns its result, or the exception it raised, and the database it leaves.
\<close>

text \<open>
  SQLite's answer to \<^verbatim>\<open>fts MATCH ?\<close>, which is the FTS5 engine's and not this module's:
  for a query string, \<open>None\<close> when SQLite raises \<^verbatim>\<open>OperationalError\<close> (it does
  not accept the statement, or the query string), or the test an index entry has to pass.
  Every statement about \<^verbatim>\<open>search\<close> holds for every such answer.
\<close>

type_synonym fts5 = "string \<Rightarrow> (fts_entry \<Rightarrow> bool) option"

text \<open>\<^verbatim>\<open>LIMIT ?\<close>: a negative limit is no limit.\<close>

definition sql_limit :: "int \<Rightarrow> 'a list \<Rightarrow> 'a list" where
  "sql_limit n xs = (if n < 0 then xs else take (nat n) xs)"

text \<open>
  \<^verbatim>\<open>SELECT p.* FROM properties p JOIN properties_fts fts ON p.rowid = fts.rowid
  WHERE fts MATCH ? LIMIT ?\<close>: the store rows joined to the matching index entries.
\<close>

definition search :: "fts5 \<Rightarrow> string \<Rightarrow> int \<Rightarrow> db \<Rightarrow> (error + property_row list) \<times> db" where
  "search fts_match q limit d =
     (if length q < 2 then (Inl (HTTPException 400 ''Query too short''), d)
      else (case fts_match q of
              None \<Rightarrow> (Inl OperationalError, d)
            | Some matches \<Rightarrow>
                (Inr (sql_limit limit
                        (concat (map (\<lambda>e. map snd (filter (\<lambda>(rid, r). rid = fst e) (properties d)))
                                     (filter matches (properties_fts d))))), d)))"

text \<open>
  \<^verbatim>\<open>SELECT * FROM properties WHERE property_id = ?\<close> and \<^verbatim>\<open>fetchone()\<close>; the
  \<^verbatim>\<open>rowid\<close> is not a column of \<^verbatim>\<open>SELECT *\<close>.
\<close>

definition get_property :: "string \<Rightarrow> db \<Rightarrow> (error + property_row) \<times> db" where
  "get_property pid d =
     (case find (\<lambda>(rid, r). property_id r = Some pid) (properties d) of
        None \<Rightarrow> (Inl (HTTPException 404 ''Not found''), d)
      | Some (rid, r) \<Rightarrow> (Inr r, d))"

record ClaimRequest =
  claim_property_id :: string
  claimant_name :: string
  claimant_address :: string
  claimant_email :: string
  claimant_phone :: "string option"

text \<open>
  \<^verbatim>\<open>start_claim(payload)\<close>: the looked-up property under the message, or the
  exception of \<^verbatim>\<open>get_property\<close>.
\<close>

definition start_claim :: "ClaimRequest \<Rightarrow> db \<Rightarrow> (error + string \<times> property_row) \<times> db" where
  "start_claim payload d =
     (case get_property (claim_property_id payload) d of
        (Inl e, d') \<Rightarrow> (Inl e, d')
      | (Inr prop, d') \<Rightarrow> (Inr (''Claim initiated'', prop), d'))"

section \<open>Vocabulary of the statements\<close>

text \<open>
  The tuples the loop appends for a run of source rows, in order; the first exception
  of \<open>normalize_row\<close> ends it, as it ends the loop.
\<close>

fun normalize_all :: "raw_row list \<Rightarrow> error + property_row list" where
  "normalize_all [] = Inr []"
| "normalize_all (row # rest) =
     (case normalize_row row of
        Inl e \<Rightarrow> Inl e
      | Inr t \<Rightarrow> (case normalize_all rest of Inl e \<Rightarrow> Inl e | Inr ts \<Rightarrow> Inr (t # ts)))"

text \<open>
  What the loop does with the rows \<open>xs\<close> it reads up to its first flush, \<open>acc\<close> pending:
  an exception of \<open>normalize_row\<close> with nothing committed, nothing at all when there is
  nothing to flush, or the flush, which commits the tuples and raises.
\<close>

definition chunk_result :: "property_row list \<Rightarrow> raw_row list \<Rightarrow> db \<Rightarrow> error option \<times> db" where
  "chunk_result acc xs d =
     (case normalize_all xs of
        Inl e \<Rightarrow> (Some e, d)
      | Inr ts \<Rightarrow> if acc @ ts = [] then (None, d) else (Some TypeError, insert_rows (acc @ ts) d))"

text \<open>No index entry for a \<^verbatim>\<open>rowid\<close> that the store does not hold.\<close>

definition index_within_store :: "db \<Rightarrow> bool" where
  "index_within_store d = (set (map fst (properties_fts d)) \<subseteq> set (map fst (properties d)))"

section \<open>Sample rows\<close>

text \<open>
  The two-row table of the end-to-end scenario, the tuples its rows normalize to, and
  four more rows: one with an id and no amount, one whose amount is \<^verbatim>\<open>N/A\<close>, one
  without any id column, and one whose \<^verbatim>\<open>PROPERTY_ID\<close> cell is empty.
\<close>

definition smith_row :: raw_row where
  "smith_row = [(''PROPERTY_ID'', Some ''P1''), (''OWNER_NAME'', Some ''Smith''), (''AMOUNT_REPORTED'', Some ''12.50'')]"

definition jones_row :: raw_row where
  "jones_row = [(''PROPERTY_ID'', Some ''P1''), (''OWNER_NAME'', Some ''Jones''), (''AMOUNT_REPORTED'', Some ''99'')]"

definition two_row_table :: "raw_row list" where
  "two_row_table = [smith_row, jones_row]"

definition smith_record :: property_row where
  "smith_record =
     \<lparr> property_id = Some ''P1'', owner_name = Some ''Smith '', owner_address = Some [],
       owner_city = Some [], owner_state = Some [], owner_zip = Some [],
       amount_reported = Some (Finite (25 / 2)), cash_reported = Some [], property_type = Some [],
       holder_name = Some [], holder_address = Some [], reported_date = Some [],
       raw_json = smith_row \<rparr>"

definition jones_record :: property_row where
  "jones_record =
     \<lparr> property_id = Some ''P1'', owner_name = Some ''Jones '', owner_address = Some [],
       owner_city = Some [], owner_state = Some [], owner_zip = Some [],
       amount_reported = Some (Finite 99), cash_reported = Some [], property_type = Some [],
       holder_name = Some [], holder_address = Some [], reported_date = Some [],
       raw_json = jones_row \<rparr>"

definition garcia_row :: raw_row where
  "garcia_row = [(''PROPERTY_ID'', Some ''P7''), (''OWNER_NAME'', Some ''Garcia'')]"

definition garcia_record :: property_row where
  "garcia_record =
     \<lparr> property_id = Some ''P7'', owner_name = Some ''Garcia '', owner_address = Some [],
       owner_city = Some [], owner_state = Some [], owner_zip = Some [],
       amount_reported = Some (Finite 0), cash_reported = Some [], property_type = Some [],
       holder_name = Some [], holder_address = Some [], reported_date = Some [],
       raw_json = garcia_row \<rparr>"

definition na_row :: raw_row where
  "na_row = [(''PROPERTY_ID'', Some ''P2''), (''AMOUNT_REPORTED'', Some ''N/A'')]"

definition no_id_row :: raw_row where
  "no_id_row = [(''OWNER_NAME'', Some ''Lee''), (''AMOUNT_REPORTED'', Some ''5'')]"

definition blank_id_row :: raw_row where
  "blank_id_row = [(''PROPERTY_ID'', Some []), (''OWNER_NAME'', Some ''Kim'')]"

section \<open>Unfolding rules for evaluation\<close>

lemmas float_defs = float_of_str_def strip_def is_space_def absfloatvalue_def lower_char_def
  floatnumber_def digitpart_def is_digit_def exponent_def scale10_def nat_of_digits_def
  digit_val_def negate_def

lemmas normalize_defs = normalize_row_def amount_of_def row_get_def row_get_str_def py_or_def fmt_def

lemmas insert_defs = insert_rows_def insert_or_ignore_def conflicts_def next_rowid_def bind_row_def

section \<open>The ingestion loop up to its first flush\<close>

lemma flush_raises: "flush rows d = (Some TypeError, insert_rows rows d)"
  by (simp add: flush_def extend_index_def)

lemma normalize_all_length: "normalize_all xs = Inr ts \<Longrightarrow> length ts = length xs"
  by (induction xs arbitrary: ts) (auto split: sum.splits)

lemma chunk_full:
  assumes "length (acc::'a list) < 10000" "Suc (length acc) mod 10000 = 0"
  shows "length acc = 9999"
proof -
  have "(10000::nat) dvd Suc (length acc)" using assms(2) by (simp only: dvd_eq_mod_eq_0)
  then have "(10000::nat) \<le> Suc (length acc)" by (rule dvd_imp_le) simp
  with assms(1) show ?thesis by linarith
qed

lemma chunk_not_full:
  assumes "length (acc::'a list) < 10000" "Suc (length acc) mod 10000 \<noteq> 0"
  shows "Suc (length acc) < 10000"
proof -
  have "Suc (length acc) \<noteq> 10000" using assms(2) by (metis mod_self)
  with assms(1) show ?thesis by linarith
qed

lemma chunk_result_Cons:
  "normalize_row row = Inr t \<Longrightarrow> chunk_result acc (row # xs) d = chunk_result (acc @ [t]) xs d"
  by (simp add: chunk_result_def split: sum.splits)

lemma stream_rows_chunk:
  "length acc + k = 10000 \<Longrightarrow> 0 < k \<Longrightarrow>
   stream_rows xs (Suc (length acc)) acc d = chunk_result acc (take k xs) d"
proof (induction xs arbitrary: acc k)
  case Nil
  then show ?case by (simp add: flush_raises chunk_result_def)
next
  case (Cons row rest)
  from Cons.prems obtain k' where k: "k = Suc k'"
    by (cases k) auto
  have lt: "length acc < 10000" using Cons.prems by linarith
  show ?case
  proof (cases "normalize_row row")
    case (Inl e)
    then show ?thesis by (simp add: k chunk_result_def)
  next
    case (Inr t)
    show ?thesis
    proof (cases "Suc (length acc) mod 10000 = 0")
      case True
      with lt have "length acc = 9999" by (rule chunk_full)
      with k Cons.prems have "k' = 0" by linarith
      have "stream_rows (row # rest) (Suc (length acc)) acc d = (Some TypeError, insert_rows (acc @ [t]) d)"
        using True Inr by (simp only: stream_rows.simps flush_raises) simp
      moreover have "chunk_result acc (take k (row # rest)) d = (Some TypeError, insert_rows (acc @ [t]) d)"
        using Inr \<open>k' = 0\<close> k by (simp add: chunk_result_def)
      ultimately show ?thesis by simp
    next
      case False
      with lt have lt': "Suc (length acc) < 10000" by (rule chunk_not_full)
      have len: "length (acc @ [t]) + k' = 10000" using Cons.prems k by simp
      have pos: "0 < k'" using len lt' by simp
      have ih: "stream_rows rest (Suc (length (acc @ [t]))) (acc @ [t]) d = chunk_result (acc @ [t]) (take k' rest) d"
        using len pos by (rule Cons.IH)
      have "stream_rows (row # rest) (Suc (length acc)) acc d = stream_rows rest (Suc (length (acc @ [t]))) (acc @ [t]) d"
        using False Inr by (simp only: stream_rows.simps) simp
      moreover have "chunk_result acc (take k (row # rest)) d = chunk_result (acc @ [t]) (take k' rest) d"
        using Inr k by (simp add: chunk_result_Cons)
      ultimately show ?thesis using ih by simp
    qed
  qed
qed

lemma stream_rows_first: "stream_rows buf (Suc 0) [] d = chunk_result [] (take 10000 buf) d"
proof -
  have "stream_rows buf (Suc (length ([]::property_row list))) [] d = chunk_result [] (take 10000 buf) d"
    by (rule stream_rows_chunk) simp_all
  then show ?thesis by simp
qed

lemma chunk_result_empty: "chunk_result [] [] d = (None, d)"
  by (simp add: chunk_result_def)

lemma chunk_result_raises:
  assumes "xs \<noteq> []"
  shows "\<exists>e d'. chunk_result [] xs d = (Some e, d')"
proof (cases "normalize_all xs")
  case (Inl e)
  then show ?thesis by (simp add: chunk_result_def)
next
  case (Inr ts)
  then have "length ts = length xs" by (rule normalize_all_length)
  with assms have "ts \<noteq> []" by auto
  with Inr show ?thesis by (simp add: chunk_result_def)
qed

lemma build_database_single:
  "build_database [buf] d = chunk_result [] (take 10000 buf) d"
proof (cases "buf = []")
  case True
  then show ?thesis by (simp add: build_database_def chunk_result_empty)
next
  case False
  then have "take 10000 buf \<noteq> []" by (cases buf) simp_all
  then obtain e d' where "chunk_result [] (take 10000 buf) d = (Some e, d')"
    using chunk_result_raises by blast
  then show ?thesis by (simp add: build_database_def stream_rows_first)
qed

lemma build_database_buffers:
  "build_database bufs d =
     (case dropWhile (\<lambda>b. b = []) bufs of
        [] \<Rightarrow> (None, d)
      | buf # _ \<Rightarrow> build_database [buf] d)"
proof (induction bufs)
  case Nil
  then show ?case by (simp add: build_database_def)
next
  case (Cons buf bufs)
  show ?case
  proof (cases "buf = []")
    case True
    with Cons show ?thesis by (simp add: build_database_def)
  next
    case False
    then have "take 10000 buf \<noteq> []" by (cases buf) simp_all
    then obtain e d' where "chunk_result [] (take 10000 buf) d = (Some e, d')"
      using chunk_result_raises by blast
    with False show ?thesis by (simp add: build_database_def stream_rows_first)
  qed
qed

lemma snd_chunk_result:
  "snd (chunk_result [] xs d) = (case normalize_all xs of Inl e \<Rightarrow> d | Inr ts \<Rightarrow> insert_rows ts d)"
  by (simp add: chunk_result_def insert_rows_def split: sum.splits)

lemma insert_rows_Nil: "insert_rows [] d = d"
  by (simp add: insert_rows_def)

lemma build_database_inserts: "\<exists>ts. snd (build_database bufs d) = insert_rows ts d"
proof -
  have single: "\<exists>ts. snd (build_database [buf] d) = insert_rows ts d" for buf
  proof (cases "normalize_all (take 10000 buf)")
    case (Inl e)
    then have "snd (build_database [buf] d) = insert_rows [] d"
      by (simp add: build_database_single snd_chunk_result insert_rows_Nil)
    then show ?thesis by (rule exI)
  next
    case (Inr ts)
    then have "snd (build_database [buf] d) = insert_rows ts d"
      by (simp add: build_database_single snd_chunk_result)
    then show ?thesis by blast
  qed
  show ?thesis
  proof (cases "dropWhile (\<lambda>b. b = []) bufs")
    case Nil
    then have "snd (build_database bufs d) = insert_rows [] d"
      by (simp only: build_database_buffers [of bufs] list.case snd_conv insert_rows_Nil)
    then show ?thesis by (rule exI)
  next
    case (Cons buf rest)
    then have "snd (build_database bufs d) = snd (build_database [buf] d)"
      by (simp only: build_database_buffers [of bufs] list.case)
    with single [of buf] show ?thesis by simp
  qed
qed

section \<open>A row whose tuple cannot be built\<close>

lemma float_of_str_error: "float_of_str s = Inl e \<Longrightarrow> e = ValueError"
  by (auto simp: float_of_str_def Let_def split: option.splits)

lemma normalize_row_error: "normalize_row row = Inl e \<Longrightarrow> e = ValueError"
  by (auto simp: normalize_row_def amount_of_def dest: float_of_str_error
      split: option.splits sum.splits if_splits)

lemma unparsable_amount_fails:
  "row_get row ''AMOUNT_REPORTED'' = Some s \<Longrightarrow> s \<noteq> [] \<Longrightarrow> float_of_str s = Inl ValueError \<Longrightarrow>
   normalize_row row = Inl ValueError"
  by (auto simp: normalize_row_def amount_of_def row_get_def split: option.splits)

lemma normalize_all_fails:
  "row \<in> set xs \<Longrightarrow> normalize_row row = Inl e \<Longrightarrow> normalize_all xs = Inl ValueError"
proof (induction xs)
  case Nil
  then show ?case by simp
next
  case (Cons x xs)
  show ?case
  proof (cases "normalize_row x")
    case (Inl e')
    then have "e' = ValueError" by (rule normalize_row_error)
    with Inl show ?thesis by simp
  next
    case (Inr t)
    with Cons.prems have "row \<in> set xs" by auto
    then have "normalize_all xs = Inl ValueError" using Cons.IH Cons.prems(2) by simp
    with Inr show ?thesis by simp
  qed
qed

lemma build_database_value_error:
  assumes "row \<in> set (take 10000 buf)" and "normalize_row row = Inl e"
  shows "build_database [buf] d = (Some ValueError, d)"
proof -
  have "normalize_all (take 10000 buf) = Inl ValueError"
    using assms by (rule normalize_all_fails)
  then show ?thesis by (simp add: build_database_single chunk_result_def)
qed

section \<open>Inserting into the record store\<close>

lemma property_id_bind_row: "property_id (bind_row t) = property_id t"
  by (simp add: bind_row_def)

lemma insert_or_ignore_cases:
  "insert_or_ignore t tbl = tbl \<or> insert_or_ignore t tbl = tbl @ [(next_rowid tbl, bind_row t)]"
  by (simp add: insert_or_ignore_def)

lemma fold_insert_appends: "\<exists>ys. fold insert_or_ignore ts tbl = tbl @ ys"
proof (induction ts arbitrary: tbl)
  case Nil
  then show ?case by simp
next
  case (Cons t ts)
  obtain ys where "fold insert_or_ignore ts (insert_or_ignore t tbl) = insert_or_ignore t tbl @ ys"
    using Cons.IH by blast
  then show ?case using insert_or_ignore_cases [of t tbl] by auto
qed

lemma find_append:
  "find P (xs @ ys) = (case find P xs of None \<Rightarrow> find P ys | Some x \<Rightarrow> Some x)"
  by (induction xs) auto

lemma find_append_found: "find P xs = Some x \<Longrightarrow> find P (xs @ ys) = Some x"
  by (simp add: find_append)

lemma find_none_conflicts:
  "find (\<lambda>(rid, r). property_id r = Some pid) tbl = None \<Longrightarrow> property_id t = Some pid \<Longrightarrow>
   \<not> conflicts t tbl"
  by (induction tbl) (auto simp: conflicts_def split: if_splits)

lemma find_fold_insert_kept:
  assumes "find (\<lambda>(rid, r). property_id r = Some pid) tbl = Some x"
  shows "find (\<lambda>(rid, r). property_id r = Some pid) (fold insert_or_ignore ts tbl) = Some x"
proof -
  obtain ys where "fold insert_or_ignore ts tbl = tbl @ ys"
    using fold_insert_appends by blast
  with assms show ?thesis by (simp add: find_append_found)
qed

lemma find_fold_insert_first:
  assumes "find (\<lambda>(rid, r). property_id r = Some pid) tbl = None"
  shows "map_option snd (find (\<lambda>(rid, r). property_id r = Some pid) (fold insert_or_ignore ts tbl))
         = map_option bind_row (find (\<lambda>t. property_id t = Some pid) ts)"
  using assms
proof (induction ts arbitrary: tbl)
  case Nil
  then show ?case by simp
next
  case (Cons t ts)
  let ?P = "\<lambda>(rid, r). property_id r = Some pid"
  show ?case
  proof (cases "property_id t = Some pid")
    case True
    with Cons.prems have "\<not> conflicts t tbl" by (simp add: find_none_conflicts)
    then have ins: "insert_or_ignore t tbl = tbl @ [(next_rowid tbl, bind_row t)]"
      by (simp add: insert_or_ignore_def)
    have "find ?P (tbl @ [(next_rowid tbl, bind_row t)]) = Some (next_rowid tbl, bind_row t)"
      using Cons.prems True by (simp add: find_append property_id_bind_row)
    then have "find ?P (fold insert_or_ignore ts (insert_or_ignore t tbl)) = Some (next_rowid tbl, bind_row t)"
      unfolding ins by (rule find_fold_insert_kept)
    with True show ?thesis by simp
  next
    case False
    have "find ?P (insert_or_ignore t tbl) = None"
      using Cons.prems False insert_or_ignore_cases [of t tbl]
      by (auto simp: find_append property_id_bind_row)
    then have "map_option snd (find ?P (fold insert_or_ignore ts (insert_or_ignore t tbl)))
               = map_option bind_row (find (\<lambda>t. property_id t = Some pid) ts)"
      by (rule Cons.IH)
    with False show ?thesis by simp
  qed
qed

lemma filter_fold_insert_kept:
  assumes "find (\<lambda>(rid, r). property_id r = Some pid) tbl = Some x"
  shows "filter (\<lambda>(rid, r). property_id r = Some pid) (fold insert_or_ignore ts tbl)
         = filter (\<lambda>(rid, r). property_id r = Some pid) tbl"
  using assms
proof (induction ts arbitrary: tbl)
  case Nil
  then show ?case by simp
next
  case (Cons t ts)
  let ?P = "\<lambda>(rid, r). property_id r = Some pid"
  have found: "Some pid \<in> set (map (\<lambda>(rid, r). property_id r) tbl)"
    using Cons.prems by (induction tbl) (auto split: if_splits)
  show ?case
  proof (cases "property_id t = Some pid")
    case True
    with found have "insert_or_ignore t tbl = tbl"
      by (simp add: insert_or_ignore_def conflicts_def)
    with Cons show ?thesis by simp
  next
    case False
    have step: "filter ?P (insert_or_ignore t tbl) = filter ?P tbl"
      using False insert_or_ignore_cases [of t tbl] by (auto simp: property_id_bind_row)
    have "find ?P (insert_or_ignore t tbl) = Some x"
      using Cons.prems insert_or_ignore_cases [of t tbl] by (auto simp: find_append)
    then have "filter ?P (fold insert_or_ignore ts (insert_or_ignore t tbl)) = filter ?P (insert_or_ignore t tbl)"
      by (rule Cons.IH)
    with step show ?thesis by simp
  qed
qed

lemma find_none_filter:
  "find P xs = None \<Longrightarrow> filter P xs = []"
  by (induction xs) (auto split: if_splits)

lemma filter_fold_insert_first:
  assumes "find (\<lambda>(rid, r). property_id r = Some pid) tbl = None"
  shows "map snd (filter (\<lambda>(rid, r). property_id r = Some pid) (fold insert_or_ignore ts tbl))
         = (case find (\<lambda>t. property_id t = Some pid) ts of None \<Rightarrow> [] | Some t \<Rightarrow> [bind_row t])"
  using assms
proof (induction ts arbitrary: tbl)
  case Nil
  then show ?case by (simp add: find_none_filter)
next
  case (Cons t ts)
  let ?P = "\<lambda>(rid, r). property_id r = Some pid"
  have empty: "filter ?P tbl = []"
    using Cons.prems by (rule find_none_filter)
  show ?case
  proof (cases "property_id t = Some pid")
    case True
    with Cons.prems have "\<not> conflicts t tbl" by (simp add: find_none_conflicts)
    then have ins: "insert_or_ignore t tbl = tbl @ [(next_rowid tbl, bind_row t)]"
      by (simp add: insert_or_ignore_def)
    have found: "find ?P (tbl @ [(next_rowid tbl, bind_row t)]) = Some (next_rowid tbl, bind_row t)"
      using Cons.prems True by (simp add: find_append property_id_bind_row)
    have "filter ?P (fold insert_or_ignore ts (tbl @ [(next_rowid tbl, bind_row t)]))
          = filter ?P (tbl @ [(next_rowid tbl, bind_row t)])"
      using found by (rule filter_fold_insert_kept)
    also have "\<dots> = [(next_rowid tbl, bind_row t)]"
      using empty True by (simp add: property_id_bind_row)
    finally show ?thesis using True ins by simp
  next
    case False
    have "find ?P (insert_or_ignore t tbl) = None"
      using Cons.prems False insert_or_ignore_cases [of t tbl]
      by (auto simp: find_append property_id_bind_row)
    then have "map snd (filter ?P (fold insert_or_ignore ts (insert_or_ignore t tbl)))
               = (case find (\<lambda>t. property_id t = Some pid) ts of None \<Rightarrow> [] | Some t \<Rightarrow> [bind_row t])"
      by (rule Cons.IH)
    with False show ?thesis by simp
  qed
qed

lemma fold_max_bounds: "a \<le> fold max xs (a::int) \<and> (\<forall>x \<in> set xs. x \<le> fold max xs a)"
proof (induction xs arbitrary: a)
  case Nil
  then show ?case by simp
next
  case (Cons y ys)
  have "max y a \<le> fold max ys (max y a)" and "\<forall>x \<in> set ys. x \<le> fold max ys (max y a)"
    using Cons.IH [of "max y a"] by auto
  then show ?case by auto
qed

lemma next_rowid_fresh: "next_rowid tbl \<notin> set (map fst tbl)"
proof
  assume "next_rowid tbl \<in> set (map fst tbl)"
  then have "next_rowid tbl \<le> fold max (map fst tbl) 0"
    using fold_max_bounds [of 0 "map fst tbl"] by blast
  then show False by (simp add: next_rowid_def)
qed

lemma fold_insert_fresh:
  "\<exists>ys. fold insert_or_ignore ts tbl = tbl @ ys \<and> set (map fst ys) \<inter> set (map fst tbl) = {}"
proof (induction ts arbitrary: tbl)
  case Nil
  then show ?case by simp
next
  case (Cons t ts)
  obtain ys where ys: "fold insert_or_ignore ts (insert_or_ignore t tbl) = insert_or_ignore t tbl @ ys"
      and fresh: "set (map fst ys) \<inter> set (map fst (insert_or_ignore t tbl)) = {}"
    using Cons.IH by blast
  show ?case
  proof (cases "conflicts t tbl")
    case True
    then have "insert_or_ignore t tbl = tbl"
      by (simp add: insert_or_ignore_def)
    with ys fresh have "fold insert_or_ignore (t # ts) tbl = tbl @ ys"
        and "set (map fst ys) \<inter> set (map fst tbl) = {}"
      by simp_all
    then show ?thesis by blast
  next
    case False
    then have ins: "insert_or_ignore t tbl = tbl @ [(next_rowid tbl, bind_row t)]"
      by (simp add: insert_or_ignore_def)
    have "fold insert_or_ignore (t # ts) tbl = tbl @ ((next_rowid tbl, bind_row t) # ys)"
      using ys ins by simp
    moreover have "set (map fst ((next_rowid tbl, bind_row t) # ys)) \<inter> set (map fst tbl) = {}"
      using fresh next_rowid_fresh [of tbl] unfolding ins by auto
    ultimately show ?thesis by blast
  qed
qed

lemma conflicts_append: "conflicts t tbl \<Longrightarrow> conflicts t (tbl @ ys)"
  by (auto simp: conflicts_def)

lemma conflicts_after_insert: "property_id t \<noteq> None \<Longrightarrow> conflicts t (insert_or_ignore t tbl)"
  by (auto simp: insert_or_ignore_def conflicts_def property_id_bind_row)

lemma conflicts_fold_insert: "conflicts t tbl \<Longrightarrow> conflicts t (fold insert_or_ignore ts tbl)"
proof -
  assume c: "conflicts t tbl"
  obtain ys where "fold insert_or_ignore ts tbl = tbl @ ys"
    using fold_insert_appends by blast
  with c show ?thesis by (simp add: conflicts_append)
qed

lemma inserted_rows_conflict:
  "t \<in> set ts \<Longrightarrow> property_id t \<noteq> None \<Longrightarrow> conflicts t (fold insert_or_ignore ts tbl)"
proof (induction ts arbitrary: tbl)
  case Nil
  then show ?case by simp
next
  case (Cons u ts)
  show ?case
  proof (cases "t = u")
    case True
    with Cons.prems have "conflicts t (insert_or_ignore u tbl)"
      by (simp add: conflicts_after_insert)
    then show ?thesis by (simp add: conflicts_fold_insert)
  next
    case False
    with Cons.prems have "t \<in> set ts" by simp
    then show ?thesis using Cons.IH Cons.prems(2) by simp
  qed
qed

lemma fold_insert_all_conflict:
  "\<forall>t \<in> set ts. conflicts t tbl \<Longrightarrow> fold insert_or_ignore ts tbl = tbl"
proof (induction ts)
  case Nil
  then show ?case by simp
next
  case (Cons u ts)
  then have "insert_or_ignore u tbl = tbl" by (simp add: insert_or_ignore_def)
  with Cons show ?case by simp
qed

lemma insert_rows_twice:
  assumes "\<forall>t \<in> set ts. property_id t \<noteq> None"
  shows "insert_rows ts (insert_rows ts d) = insert_rows ts d"
proof -
  have "\<forall>t \<in> set ts. conflicts t (fold insert_or_ignore ts (properties d))"
    using assms by (simp add: inserted_rows_conflict)
  then have "fold insert_or_ignore ts (fold insert_or_ignore ts (properties d))
             = fold insert_or_ignore ts (properties d)"
    by (rule fold_insert_all_conflict)
  then show ?thesis by (simp add: insert_rows_def)
qed

section \<open>Looking a record up after an insertion\<close>

lemma get_property_find:
  "fst (get_property pid d) =
     (case find (\<lambda>(rid, r). property_id r = Some pid) (properties d) of
        None \<Rightarrow> Inl (HTTPException 404 ''Not found'')
      | Some x \<Rightarrow> Inr (snd x))"
  by (simp add: get_property_def split: option.splits)

lemma get_property_insert_rows_kept:
  assumes "fst (get_property pid d) = Inr r"
  shows "fst (get_property pid (insert_rows ts d)) = Inr r"
proof -
  from assms obtain x where x: "find (\<lambda>(rid, r). property_id r = Some pid) (properties d) = Some x"
      and r: "snd x = r"
    by (auto simp: get_property_find split: option.splits)
  have "find (\<lambda>(rid, r). property_id r = Some pid) (fold insert_or_ignore ts (properties d)) = Some x"
    using x by (rule find_fold_insert_kept)
  with r show ?thesis by (simp add: get_property_find insert_rows_def)
qed

lemma get_property_insert_rows_first:
  assumes "fst (get_property pid d) = Inl e"
  shows "fst (get_property pid (insert_rows ts d)) =
           (case find (\<lambda>t. property_id t = Some pid) ts of
              None \<Rightarrow> Inl (HTTPException 404 ''Not found'')
            | Some t \<Rightarrow> Inr (bind_row t))"
proof -
  from assms have none: "find (\<lambda>(rid, r). property_id r = Some pid) (properties d) = None"
    by (auto simp: get_property_find split: option.splits)
  have "map_option bind_row (find (\<lambda>t. property_id t = Some pid) ts)
        = map_option snd (find (\<lambda>(rid, r). property_id r = Some pid) (fold insert_or_ignore ts (properties d)))"
    using none by (rule find_fold_insert_first [symmetric])
  then show ?thesis
    by (cases "find (\<lambda>(rid, r). property_id r = Some pid) (fold insert_or_ignore ts (properties d))";
        cases "find (\<lambda>t. property_id t = Some pid) ts")
       (auto simp: get_property_find insert_rows_def)
qed

lemma get_property_insert_rows_only_first:
  assumes "fst (get_property pid d) = Inl e"
  shows "map snd (filter (\<lambda>(rid, r). property_id r = Some pid) (properties (insert_rows ts d)))
         = (case find (\<lambda>t. property_id t = Some pid) ts of None \<Rightarrow> [] | Some t \<Rightarrow> [bind_row t])"
proof -
  from assms have "find (\<lambda>(rid, r). property_id r = Some pid) (properties d) = None"
    by (auto simp: get_property_find split: option.splits)
  then show ?thesis by (simp add: insert_rows_def filter_fold_insert_first)
qed

lemma get_property_insert_rows_no_second:
  assumes "fst (get_property pid d) = Inr r"
  shows "filter (\<lambda>(rid, r). property_id r = Some pid) (properties (insert_rows ts d))
         = filter (\<lambda>(rid, r). property_id r = Some pid) (properties d)"
proof -
  from assms obtain x where "find (\<lambda>(rid, r). property_id r = Some pid) (properties d) = Some x"
    by (auto simp: get_property_find split: option.splits)
  then show ?thesis by (simp add: insert_rows_def filter_fold_insert_kept)
qed

lemma find_first_with_id:
  "Some pid \<notin> set (map property_id pre) \<Longrightarrow> property_id t = Some pid \<Longrightarrow>
   find (\<lambda>t. property_id t = Some pid) (pre @ t # post) = Some t"
  by (induction pre) auto

section \<open>The sample rows, evaluated\<close>

lemma normalize_smith_row: "normalize_row smith_row = Inr smith_record"
  by (simp add: smith_row_def smith_record_def normalize_defs float_defs)

lemma normalize_jones_row: "normalize_row jones_row = Inr jones_record"
  by (simp add: jones_row_def jones_record_def normalize_defs float_defs)

lemma normalize_garcia_row: "normalize_row garcia_row = Inr garcia_record"
  by (simp add: garcia_row_def garcia_record_def normalize_defs)

lemma smith_then_jones:
  "build_database [[smith_row, jones_row]] empty_db =
     (Some TypeError, \<lparr> properties = [(1, smith_record)], properties_fts = [] \<rparr>)"
  by (simp add: build_database_single chunk_result_def normalize_smith_row normalize_jones_row
      insert_defs empty_db_def smith_record_def jones_record_def)

lemma index_within_store_empty: "index_within_store empty_db"
  by (simp add: index_within_store_def empty_db_def)

section \<open>Deduplication by \<^verbatim>\<open>property_id\<close>\<close>

text \<open>
  Claim C1. A record that \<^verbatim>\<open>get_property\<close> returns for an id is still the one it
  returns, field for field, after any further run of \<^verbatim>\<open>build_database\<close>, whatever
  rows that run brings, and the run adds no second record with this id: a later row with
  the same id is ignored. And within the rows of one flush, when the store has no record
  for the id yet, the record it returns afterwards is the tuple of the first row with
  that id, as SQLite stores it, whatever follows it, and this is the only record with
  the id that the store then holds: the later rows of the flush with this id are not
  stored.
\<close>

theorem first_committed_record_wins:
  "(fst (get_property pid d) = Inr r \<longrightarrow>
      fst (get_property pid (snd (build_database bufs d))) = Inr r
      \<and> filter (\<lambda>(rid, r). property_id r = Some pid) (properties (snd (build_database bufs d)))
          = filter (\<lambda>(rid, r). property_id r = Some pid) (properties d))
   \<and> (fst (get_property pid d) = Inl (HTTPException 404 ''Not found'') \<longrightarrow>
        normalize_all (take 10000 buf) = Inr (pre @ t # post) \<longrightarrow>
        Some pid \<notin> set (map property_id pre) \<longrightarrow>
        property_id t = Some pid \<longrightarrow>
        fst (get_property pid (snd (build_database [buf] d))) = Inr (bind_row t)
        \<and> map snd (filter (\<lambda>(rid, r). property_id r = Some pid)
                       (properties (snd (build_database [buf] d))))
            = [bind_row t])"
proof (intro conjI impI)
  assume stored: "fst (get_property pid d) = Inr r"
  obtain ts where ts: "snd (build_database bufs d) = insert_rows ts d"
    using build_database_inserts by blast
  show "fst (get_property pid (snd (build_database bufs d))) = Inr r"
    using stored ts by (simp add: get_property_insert_rows_kept)
  show "filter (\<lambda>(rid, r). property_id r = Some pid) (properties (snd (build_database bufs d)))
          = filter (\<lambda>(rid, r). property_id r = Some pid) (properties d)"
    using stored ts by (simp add: get_property_insert_rows_no_second)
next
  assume absent: "fst (get_property pid d) = Inl (HTTPException 404 ''Not found'')"
    and rows: "normalize_all (take 10000 buf) = Inr (pre @ t # post)"
    and first: "Some pid \<notin> set (map property_id pre)" "property_id t = Some pid"
  have run: "snd (build_database [buf] d) = insert_rows (pre @ t # post) d"
    using rows by (simp add: build_database_single snd_chunk_result)
  have found: "find (\<lambda>t. property_id t = Some pid) (pre @ t # post) = Some t"
    using first by (rule find_first_with_id)
  show "fst (get_property pid (snd (build_database [buf] d))) = Inr (bind_row t)"
    using run found get_property_insert_rows_first [OF absent, of "pre @ t # post"] by simp
  show "map snd (filter (\<lambda>(rid, r). property_id r = Some pid)
                   (properties (snd (build_database [buf] d))))
        = [bind_row t]"
    using run found get_property_insert_rows_only_first [OF absent, of "pre @ t # post"] by simp
qed

text \<open>
  At the rows of the scenario: the record of the first row stays, alone, when the second
  row comes in a later run, and it is the one stored, alone, when both come in the same
  run.
\<close>

theorem first_committed_record_wins_witness:
  "fst (get_property ''P1'' (snd (build_database [[jones_row]] (snd (build_database [[smith_row]] empty_db)))))
     = Inr smith_record
   \<and> properties (snd (build_database [[jones_row]] (snd (build_database [[smith_row]] empty_db))))
     = [(1, smith_record)]
   \<and> fst (get_property ''P1'' (snd (build_database [two_row_table] empty_db))) = Inr smith_record
   \<and> map snd (filter (\<lambda>(rid, r). property_id r = Some ''P1'')
                  (properties (snd (build_database [two_row_table] empty_db))))
       = [smith_record]"
proof -
  have one: "snd (build_database [[smith_row]] empty_db) = \<lparr> properties = [(1, smith_record)], properties_fts = [] \<rparr>"
    by (simp add: build_database_single chunk_result_def normalize_smith_row insert_defs empty_db_def
        smith_record_def)
  have stored: "fst (get_property ''P1'' (snd (build_database [[smith_row]] empty_db))) = Inr smith_record"
    by (simp add: one get_property_def smith_record_def)
  have two: "properties (snd (build_database [[jones_row]] (snd (build_database [[smith_row]] empty_db))))
     = [(1, smith_record)]"
    unfolding one
    by (simp add: build_database_single chunk_result_def normalize_jones_row insert_defs
        smith_record_def jones_record_def)
  have absent: "fst (get_property ''P1'' empty_db) = Inl (HTTPException 404 ''Not found'')"
    by (simp add: get_property_def empty_db_def)
  have rows: "normalize_all (take 10000 two_row_table) = Inr ([] @ smith_record # [jones_record])"
    by (simp add: two_row_table_def normalize_smith_row normalize_jones_row)
  have first: "Some ''P1'' \<notin> set (map property_id [])" "property_id smith_record = Some ''P1''"
    by (simp_all add: smith_record_def)
  have bound: "bind_row smith_record = smith_record"
    by (simp add: bind_row_def smith_record_def)
  have later: "fst (get_property ''P1'' (snd (build_database [[jones_row]] (snd (build_database [[smith_row]] empty_db)))))
     = Inr smith_record"
    using stored
    by (rule first_committed_record_wins [THEN conjunct1, rule_format, THEN conjunct1])
  have same: "fst (get_property ''P1'' (snd (build_database [two_row_table] empty_db))) = Inr (bind_row smith_record)
     \<and> map snd (filter (\<lambda>(rid, r). property_id r = Some ''P1'')
                  (properties (snd (build_database [two_row_table] empty_db))))
       = [bind_row smith_record]"
    using absent rows first
    by (rule first_committed_record_wins [THEN conjunct2, rule_format])
  from later two same show ?thesis
    by (simp add: bound)
qed

section \<open>The index extension\<close>

text \<open>
  Claim C4, as the code has it. When a buffer has a row and the tuples of its first
  10000 rows are all built without an exception, \<^verbatim>\<open>build_database\<close> raises
  \<^verbatim>\<open>TypeError\<close> at the index extension, after these tuples were inserted and
  committed; the index is as it was, so in a database whose index was within the store
  none of the new store rows has an index entry. When \<^verbatim>\<open>float\<close> rejects the amount of
  one of the first 10000 rows, the run ends with \<^verbatim>\<open>ValueError\<close> instead, and the
  database is as it was: nothing was inserted, whatever rows came before that one.
\<close>

theorem index_extension_raises_after_commit:
  "(buf \<noteq> [] \<longrightarrow> normalize_all (take 10000 buf) = Inr ts \<longrightarrow> index_within_store d \<longrightarrow>
      build_database [buf] d = (Some TypeError, insert_rows ts d)
      \<and> properties_fts (insert_rows ts d) = properties_fts d
      \<and> (\<exists>new. properties (insert_rows ts d) = properties d @ new
             \<and> set (map fst new) \<inter> set (map fst (properties_fts (insert_rows ts d))) = {}))
   \<and> (row \<in> set (take 10000 buf) \<longrightarrow> row_get row ''AMOUNT_REPORTED'' = Some s \<longrightarrow> s \<noteq> [] \<longrightarrow>
        float_of_str s = Inl ValueError \<longrightarrow>
        build_database [buf] d = (Some ValueError, d))"
proof (intro conjI impI)
  assume buf: "buf \<noteq> []" and rows: "normalize_all (take 10000 buf) = Inr ts"
    and within: "index_within_store d"
  have "length ts = length (take 10000 buf)"
    using rows by (rule normalize_all_length)
  with buf have "ts \<noteq> []" by (cases buf) auto
  with rows show "build_database [buf] d = (Some TypeError, insert_rows ts d)"
    by (simp add: build_database_single chunk_result_def)
  show fts: "properties_fts (insert_rows ts d) = properties_fts d"
    by (simp add: insert_rows_def)
  obtain new where new: "fold insert_or_ignore ts (properties d) = properties d @ new"
      and fresh: "set (map fst new) \<inter> set (map fst (properties d)) = {}"
    using fold_insert_fresh by blast
  have "set (map fst new) \<inter> set (map fst (properties_fts d)) = {}"
    using fresh within unfolding index_within_store_def by blast
  with new fts have "properties (insert_rows ts d) = properties d @ new
      \<and> set (map fst new) \<inter> set (map fst (properties_fts (insert_rows ts d))) = {}"
    by (simp add: insert_rows_def)
  then show "\<exists>new. properties (insert_rows ts d) = properties d @ new
      \<and> set (map fst new) \<inter> set (map fst (properties_fts (insert_rows ts d))) = {}"
    by (rule exI)
next
  assume "row \<in> set (take 10000 buf)" and "row_get row ''AMOUNT_REPORTED'' = Some s"
    and "s \<noteq> []" and "float_of_str s = Inl ValueError"
  then show "build_database [buf] d = (Some ValueError, d)"
    by (simp add: build_database_value_error [OF _ unparsable_amount_fails])
qed

text \<open>
  At a table with the one row of \<^verbatim>\<open>P7\<close>, and at a table where the row of \<^verbatim>\<open>P7\<close> is
  pending when the amount \<^verbatim>\<open>N/A\<close> of the next row is rejected.
\<close>

theorem index_extension_raises_after_commit_witness:
  "[garcia_row] \<noteq> [] \<and> index_within_store empty_db
   \<and> build_database [[garcia_row]] empty_db =
       (Some TypeError, \<lparr> properties = [(1, garcia_record)], properties_fts = [] \<rparr>)
   \<and> build_database [[garcia_row, na_row]] empty_db = (Some ValueError, empty_db)"
proof -
  have rows: "normalize_all (take 10000 [garcia_row]) = Inr [garcia_record]"
    by (simp add: normalize_garcia_row)
  have "build_database [[garcia_row]] empty_db = (Some TypeError, insert_rows [garcia_record] empty_db)
      \<and> properties_fts (insert_rows [garcia_record] empty_db) = properties_fts empty_db
      \<and> (\<exists>new. properties (insert_rows [garcia_record] empty_db) = properties empty_db @ new
             \<and> set (map fst new) \<inter> set (map fst (properties_fts (insert_rows [garcia_record] empty_db))) = {})"
    using _ rows index_within_store_empty
    by (rule index_extension_raises_after_commit [THEN conjunct1, rule_format]) simp
  then have "build_database [[garcia_row]] empty_db = (Some TypeError, insert_rows [garcia_record] empty_db)"
    by (rule conjunct1)
  then have committed: "build_database [[garcia_row]] empty_db =
       (Some TypeError, \<lparr> properties = [(1, garcia_record)], properties_fts = [] \<rparr>)"
    by (simp add: insert_defs empty_db_def garcia_record_def)
  have bad: "na_row \<in> set (take 10000 [garcia_row, na_row])"
      "row_get na_row ''AMOUNT_REPORTED'' = Some ''N/A''" "''N/A'' \<noteq> []"
      "float_of_str ''N/A'' = Inl ValueError"
    by (simp_all add: na_row_def row_get_def float_defs)
  have "build_database [[garcia_row, na_row]] empty_db = (Some ValueError, empty_db)"
    using bad by (rule index_extension_raises_after_commit [THEN conjunct2, rule_format])
  with committed show ?thesis
    by (simp add: index_within_store_empty)
qed

text \<open>
  A table with one row whose amount \<^verbatim>\<open>float\<close> rejects: the run ends with
  \<^verbatim>\<open>ValueError\<close> while the tuple is built, before any insert, and nothing is committed.
\<close>

theorem index_extension_not_reached_counterexample:
  "build_database [[[(''PROPERTY_ID'', Some ''P1''), (''AMOUNT_REPORTED'', Some ''N/A'')]]] empty_db
     = (Some ValueError, empty_db)"
  by (simp add: build_database_single chunk_result_def normalize_defs float_defs)

text \<open>
  Claim C2, at a table with the one row \<^verbatim>\<open>{PROPERTY_ID: "P7", OWNER_NAME: "Garcia"}\<close>
  and a new database. The run commits the record and raises at the index extension; a
  further run over an empty buffer completes and changes nothing. The record is in the
  store and \<^verbatim>\<open>get_property\<close> returns it, the index is empty, and \<^verbatim>\<open>search\<close> for
  \<^verbatim>\<open>Garcia\<close> returns no row, whatever the engine's matching is: the empty list, unless
  SQLite raises \<^verbatim>\<open>OperationalError\<close>.
\<close>

theorem committed_record_not_indexed:
  "build_database [[garcia_row]] empty_db
     = (Some TypeError, \<lparr> properties = [(1, garcia_record)], properties_fts = [] \<rparr>)
   \<and> build_database [[]] (snd (build_database [[garcia_row]] empty_db))
       = (None, \<lparr> properties = [(1, garcia_record)], properties_fts = [] \<rparr>)
   \<and> fst (get_property ''P7'' (snd (build_database [[garcia_row]] empty_db))) = Inr garcia_record
   \<and> fst (search fts_match ''Garcia'' 50 (snd (build_database [[garcia_row]] empty_db)))
       = (case fts_match ''Garcia'' of None \<Rightarrow> Inl OperationalError | Some matches \<Rightarrow> Inr [])"
proof -
  have run: "build_database [[garcia_row]] empty_db
     = (Some TypeError, \<lparr> properties = [(1, garcia_record)], properties_fts = [] \<rparr>)"
    by (simp add: build_database_single chunk_result_def normalize_garcia_row insert_defs empty_db_def
        garcia_record_def)
  have "build_database [[]] d = (None, d)" for d
    by (simp add: build_database_def)
  with run show ?thesis
    by (simp add: get_property_def search_def sql_limit_def garcia_record_def split: option.splits)
qed

section \<open>Rows without an id, and running twice\<close>

text \<open>
  Claim C6, at a table with the one row \<^verbatim>\<open>{OWNER_NAME: "Lee", AMOUNT_REPORTED: "5"}\<close>,
  which has no id under either header: the row is inserted and committed, with
  \<^verbatim>\<open>NULL\<close> as its \<^verbatim>\<open>property_id\<close>.
\<close>

theorem row_without_id_is_committed:
  "fst (build_database [[no_id_row]] empty_db) = Some TypeError
   \<and> map (\<lambda>(rid, r). (rid, property_id r, owner_name r)) (properties (snd (build_database [[no_id_row]] empty_db)))
       = [(1, None, Some ''Lee '')]"
  by (simp add: build_database_single chunk_result_def no_id_row_def normalize_defs float_defs
      insert_defs empty_db_def)

text \<open>
  Running twice over the same buffer. When every tuple of the flush has an id, the
  second run finds each of them in the store and inserts nothing; when a tuple could not
  be built, neither run inserts anything.
\<close>

lemma rerun_with_ids_changes_nothing:
  assumes "normalize_all (take 10000 buf) = Inr ts" and "\<forall>t \<in> set ts. property_id t \<noteq> None"
  shows "snd (build_database [buf] (snd (build_database [buf] d))) = snd (build_database [buf] d)"
  using assms by (simp add: build_database_single snd_chunk_result insert_rows_twice)

lemma rerun_after_value_error_changes_nothing:
  assumes "normalize_all (take 10000 buf) = Inl e"
  shows "snd (build_database [buf] (snd (build_database [buf] d))) = d"
  using assms by (simp add: build_database_single snd_chunk_result)

text \<open>
  Claim C3, at a table with the one row \<^verbatim>\<open>{PROPERTY_ID: "", OWNER_NAME: "Kim"}\<close>.
  \<^verbatim>\<open>sync\<close> hands the rows of the first archive member to \<^verbatim>\<open>build_database\<close>. The
  first run inserts the row with \<^verbatim>\<open>NULL\<close> as its id; the second run over the same
  table inserts it once more, since a \<^verbatim>\<open>NULL\<close> id conflicts with nothing.
\<close>

theorem rerun_inserts_row_without_id_again:
  "sync reader (Inr (Zip [(name, Inr buf)])) d = build_database [reader buf] d
   \<and> map (\<lambda>(rid, r). (rid, property_id r, owner_name r))
         (properties (snd (build_database [[blank_id_row]] empty_db)))
       = [(1, None, Some ''Kim '')]
   \<and> map (\<lambda>(rid, r). (rid, property_id r, owner_name r))
         (properties (snd (build_database [[blank_id_row]] (snd (build_database [[blank_id_row]] empty_db)))))
       = [(1, None, Some ''Kim ''), (2, None, Some ''Kim '')]"
  by (simp add: sync_def extract_csv_from_zip_def build_database_single chunk_result_def
      blank_id_row_def normalize_defs insert_defs empty_db_def)

section \<open>The amount of a row\<close>

text \<open>
  Claim C5, as the code has it. A row whose \<^verbatim>\<open>AMOUNT_REPORTED\<close> is missing,
  \<^verbatim>\<open>None\<close> or empty gets the amount \<open>0\<close>. A row whose amount is a non-empty text
  that \<^verbatim>\<open>float\<close> rejects gets no tuple: building it raises \<^verbatim>\<open>ValueError\<close>, and a
  run of \<^verbatim>\<open>build_database\<close> that has the row among the first 10000 of its buffer
  ends with this \<^verbatim>\<open>ValueError\<close> and the database as it was, the rows pending then
  not inserted.
\<close>

theorem normalize_row_amount:
  "(row_get row ''AMOUNT_REPORTED'' = None \<or> row_get row ''AMOUNT_REPORTED'' = Some [] \<longrightarrow>
      (\<exists>t. normalize_row row = Inr t \<and> amount_reported t = Some (Finite 0)))
   \<and> (row_get row ''AMOUNT_REPORTED'' = Some s \<longrightarrow> s \<noteq> [] \<longrightarrow>
        float_of_str s = Inl ValueError \<longrightarrow>
        normalize_row row = Inl ValueError
        \<and> (row \<in> set (take 10000 buf) \<longrightarrow> build_database [buf] d = (Some ValueError, d)))"
proof (intro conjI impI)
  assume "row_get row ''AMOUNT_REPORTED'' = None \<or> row_get row ''AMOUNT_REPORTED'' = Some []"
  then show "\<exists>t. normalize_row row = Inr t \<and> amount_reported t = Some (Finite 0)"
    by (auto simp: normalize_row_def amount_of_def row_get_def split: option.splits)
next
  assume bad: "row_get row ''AMOUNT_REPORTED'' = Some s" "s \<noteq> []" "float_of_str s = Inl ValueError"
  then show fails: "normalize_row row = Inl ValueError"
    by (rule unparsable_amount_fails)
  assume "row \<in> set (take 10000 buf)"
  then show "build_database [buf] d = (Some ValueError, d)"
    using fails by (rule build_database_value_error)
qed

text \<open>
  At a row without the column, a row with an empty amount, and a row with the amount
  \<^verbatim>\<open>twelve\<close>, alone and after a row that is pending.
\<close>

theorem normalize_row_amount_witness:
  "(\<exists>t. normalize_row [(''PROPERTY_ID'', Some ''P1'')] = Inr t \<and> amount_reported t = Some (Finite 0))
   \<and> (\<exists>t. normalize_row [(''PROPERTY_ID'', Some ''P1''), (''AMOUNT_REPORTED'', Some [])] = Inr t
          \<and> amount_reported t = Some (Finite 0))
   \<and> normalize_row [(''PROPERTY_ID'', Some ''P1''), (''AMOUNT_REPORTED'', Some ''twelve'')] = Inl ValueError
   \<and> build_database [[garcia_row, [(''PROPERTY_ID'', Some ''P1''), (''AMOUNT_REPORTED'', Some ''twelve'')]]] empty_db
       = (Some ValueError, empty_db)"
proof -
  let ?bad = "[(''PROPERTY_ID'', Some ''P1''), (''AMOUNT_REPORTED'', Some ''twelve'')]"
  have absent: "row_get [(''PROPERTY_ID'', Some ''P1'')] ''AMOUNT_REPORTED'' = None"
    by (simp add: row_get_def)
  have empty: "row_get [(''PROPERTY_ID'', Some ''P1''), (''AMOUNT_REPORTED'', Some [])] ''AMOUNT_REPORTED'' = Some []"
    by (simp add: row_get_def)
  have bad: "row_get ?bad ''AMOUNT_REPORTED'' = Some ''twelve''" "''twelve'' \<noteq> []"
      "float_of_str ''twelve'' = Inl ValueError" "?bad \<in> set (take 10000 [garcia_row, ?bad])"
    by (simp_all add: row_get_def float_defs)
  have w1: "\<exists>t. normalize_row [(''PROPERTY_ID'', Some ''P1'')] = Inr t \<and> amount_reported t = Some (Finite 0)"
    using absent by (intro normalize_row_amount [THEN conjunct1, rule_format] disjI1)
  have w2: "\<exists>t. normalize_row [(''PROPERTY_ID'', Some ''P1''), (''AMOUNT_REPORTED'', Some [])] = Inr t
          \<and> amount_reported t = Some (Finite 0)"
    using empty by (intro normalize_row_amount [THEN conjunct1, rule_format] disjI2)
  have w4: "normalize_row ?bad = Inl ValueError
      \<and> (?bad \<in> set (take 10000 [garcia_row, ?bad]) \<longrightarrow>
           build_database [[garcia_row, ?bad]] empty_db = (Some ValueError, empty_db))"
    using bad(1-3) by (rule normalize_row_amount [THEN conjunct2, rule_format])
  from w4 bad(4) have w5: "build_database [[garcia_row, ?bad]] empty_db = (Some ValueError, empty_db)"
    by (rule conjunct2 [THEN mp])
  from w1 w2 w4 [THEN conjunct1] w5 show ?thesis
    by (intro conjI)
qed

text \<open>
  The amount \<^verbatim>\<open>abc\<close> does not parse: the row has no tuple, and the run over a
  table with this row ends with \<^verbatim>\<open>ValueError\<close> and an empty store.
\<close>

theorem normalize_row_unparsable_counterexample:
  "normalize_row [(''PROPERTY_ID'', Some ''P1''), (''OWNER_NAME'', Some ''Smith''), (''AMOUNT_REPORTED'', Some ''abc'')]
     = Inl ValueError
   \<and> build_database [[[(''PROPERTY_ID'', Some ''P1''), (''OWNER_NAME'', Some ''Smith''), (''AMOUNT_REPORTED'', Some ''abc'')]]] empty_db
     = (Some ValueError, empty_db)"
  by (simp add: build_database_single chunk_result_def normalize_defs float_defs)

section \<open>The end-to-end scenario\<close>

text \<open>
  Claim C7, as the code has it. After one run over the two-row table on a new database,
  \<^verbatim>\<open>get_property("P1")\<close> returns the tuple of the first row, whose \<^verbatim>\<open>owner_name\<close> is
  \<^verbatim>\<open>"Smith "\<close> (the name, a space, and the empty first name); the store holds this one
  record, the second row having been ignored; and \<^verbatim>\<open>search("Jones", 5)\<close> returns no
  row: the empty list, unless SQLite raises \<^verbatim>\<open>OperationalError\<close>.
\<close>

theorem two_row_scenario:
  "fst (get_property ''P1'' (snd (build_database [two_row_table] empty_db))) = Inr smith_record
   \<and> owner_name smith_record = Some ''Smith ''
   \<and> properties (snd (build_database [two_row_table] empty_db)) = [(1, smith_record)]
   \<and> fst (search fts_match ''Jones'' 5 (snd (build_database [two_row_table] empty_db)))
       = (case fts_match ''Jones'' of None \<Rightarrow> Inl OperationalError | Some matches \<Rightarrow> Inr [])"
proof -
  have "snd (build_database [two_row_table] empty_db) = \<lparr> properties = [(1, smith_record)], properties_fts = [] \<rparr>"
    by (simp add: two_row_table_def smith_then_jones)
  then show ?thesis
    by (simp add: get_property_def search_def sql_limit_def smith_record_def split: option.splits)
qed

text \<open>
  The \<^verbatim>\<open>owner_name\<close> of the stored record is \<^verbatim>\<open>"Smith "\<close> with the space of the
  f-string, not \<^verbatim>\<open>"Smith"\<close>.
\<close>

theorem two_row_scenario_counterexample:
  "map_sum id owner_name (fst (get_property ''P1'' (snd (build_database [two_row_table] empty_db))))
     = Inr (Some ''Smith '')
   \<and> map_sum id owner_name (fst (get_property ''P1'' (snd (build_database [two_row_table] empty_db))))
     \<noteq> Inr (Some ''Smith'')"
proof -
  have "snd (build_database [two_row_table] empty_db) = \<lparr> properties = [(1, smith_record)], properties_fts = [] \<rparr>"
    by (simp add: two_row_table_def smith_then_jones)
  then show ?thesis
    by (simp add: get_property_def smith_record_def)
qed

section \<open>The read path\<close>

text \<open>
  Claim C8. \<^verbatim>\<open>search\<close> raises \<^verbatim>\<open>HTTPException(400, "Query too short")\<close> exactly when the
  query has fewer than two characters, whatever the limit, the engine and the database
  are: the test comes before the connection is opened. The query \<^verbatim>\<open>"a"\<close> is rejected
  so; the query \<^verbatim>\<open>"ab"\<close> is not, and its result is the engine's.
\<close>

theorem search_query_too_short:
  "(fst (search fts_match q limit d) = Inl (HTTPException 400 ''Query too short'')) = (length q < 2)
   \<and> search fts_match ''a'' 10 d = (Inl (HTTPException 400 ''Query too short''), d)
   \<and> fst (search fts_match ''ab'' 10 d) \<noteq> Inl (HTTPException 400 ''Query too short'')
   \<and> fst (search fts_match ''ab'' 10 d) =
       (case fts_match ''ab'' of
          None \<Rightarrow> Inl OperationalError
        | Some matches \<Rightarrow>
            Inr (sql_limit 10
                   (concat (map (\<lambda>e. map snd (filter (\<lambda>(rid, r). rid = fst e) (properties d)))
                                (filter matches (properties_fts d))))))"
  by (simp add: search_def split: option.splits)

text \<open>
  Claim C10. \<^verbatim>\<open>start_claim\<close> writes nothing: the database after the call is the
  database before it, records and index, whether the call returns or raises. It returns
  the record \<^verbatim>\<open>get_property\<close> finds, under the message, and raises the 404 of
  \<^verbatim>\<open>get_property\<close> exactly when no stored record has the payload's \<^verbatim>\<open>property_id\<close>.
\<close>

theorem start_claim_writes_nothing:
  "snd (start_claim payload d) = d
   \<and> properties (snd (start_claim payload d)) = properties d
   \<and> properties_fts (snd (start_claim payload d)) = properties_fts d
   \<and> fst (start_claim payload d) =
       (case fst (get_property (claim_property_id payload) d) of
          Inl e \<Rightarrow> Inl e
        | Inr prop \<Rightarrow> Inr (''Claim initiated'', prop))
   \<and> (fst (start_claim payload d) = Inl (HTTPException 404 ''Not found''))
       = (Some (claim_property_id payload) \<notin> set (map (\<lambda>(rid, r). property_id r) (properties d)))"
proof -
  have found: "find (\<lambda>(rid, r). property_id r = Some pid) tbl = None
      \<longleftrightarrow> Some pid \<notin> set (map (\<lambda>(rid, r). property_id r) tbl)" for pid and tbl :: "(int \<times> property_row) list"
    by (induction tbl) auto
  show ?thesis
    using found [of "claim_property_id payload" "properties d"]
    by (auto simp: start_claim_def get_property_def split: option.splits)
qed

text \<open>
  Claim C9, as the code has it. An archive without a member makes
  \<^verbatim>\<open>extract_csv_from_zip\<close> raise Python's \<^verbatim>\<open>IndexError\<close>, from \<^verbatim>\<open>zf.namelist()[0]\<close>.
\<close>

theorem extract_csv_from_zip_no_member:
  "members = [] \<Longrightarrow> extract_csv_from_zip (Zip members) = Inl IndexError"
  by (simp add: extract_csv_from_zip_def)

theorem extract_csv_from_zip_no_member_witness:
  "([] :: (string \<times> (error + string)) list) = []
   \<and> extract_csv_from_zip (Zip []) = Inl IndexError"
  using extract_csv_from_zip_no_member [of "[]"] by simp

text \<open>
  The empty archive: the exception is \<^verbatim>\<open>IndexError\<close>, the one a list raises for any
  index out of range, and the module has no error of its own for it.
\<close>

theorem extract_csv_from_zip_empty_counterexample:
  "extract_csv_from_zip (Zip []) = Inl IndexError"
  by (simp add: extract_csv_from_zip_def)

end
